theory Spec2Isabelle
  imports Main
begin

section \<open>Time\<close>

text \<open>
  Go's \<^verbatim>\<open>time.Time\<close> is an instant with nanosecond resolution and
  \<^verbatim>\<open>time.Duration\<close> a count of nanoseconds. Both are integers here:
  an instant is the number of nanoseconds since the Unix epoch. Every call of
  \<^verbatim>\<open>time.Now()\<close> in the source becomes an explicit argument of the function
  that makes the call, one argument per call.
\<close>

type_synonym time = int
type_synonym duration = int

definition Second :: duration where
  "Second = 1000000000"

definition Hour :: duration where
  "Hour = 3600 * Second"

text \<open>\<^verbatim>\<open>t.Before(u)\<close>\<close>

definition Before :: "time \<Rightarrow> time \<Rightarrow> bool" where
  "Before t u = (t < u)"

text \<open>\<^verbatim>\<open>t.Add(d)\<close>\<close>

definition Add :: "time \<Rightarrow> duration \<Rightarrow> time" where
  "Add t d = t + d"

text \<open>
  \<^verbatim>\<open>t.Truncate(d)\<close> rounds \<open>t\<close> down to a multiple of \<open>d\<close>. Go counts from
  its zero time, which lies a whole number of seconds before the Unix epoch, so for
  the one unit used here (a second) the multiples are the same.
\<close>

definition Truncate :: "time \<Rightarrow> duration \<Rightarrow> time" where
  "Truncate t d = (if d \<le> 0 then t else (t div d) * d)"

section \<open>models: roles and users (models/user.go)\<close>

text \<open>\<^verbatim>\<open>type Role string\<close> with its three constants.\<close>

type_synonym Role = string

definition RoleAdmin :: Role where
  "RoleAdmin = ''ADMIN''"

definition RoleHR :: Role where
  "RoleHR = ''HR''"

definition RoleEmployee :: Role where
  "RoleEmployee = ''EMPLOYEE''"

text \<open>
  \<^verbatim>\<open>type User struct\<close>. \<open>ID\<close> is Go's \<^verbatim>\<open>uint\<close>; no arithmetic is done on
  identifiers, so they are natural numbers. \<open>DeletedAt\<close> is gorm's soft-delete
  mark: \<open>None\<close> for a live row. The bookkeeping stamps \<^verbatim>\<open>CreatedAt\<close>,
  \<^verbatim>\<open>UpdatedAt\<close> and the preloaded association \<^verbatim>\<open>OvertimeEntries\<close> are
  read by none of the functions below and are left out.
\<close>

record User =
  ID :: nat
  DeletedAt :: "time option"
  Username :: string
  FullName :: string
  PasswordHash :: string
  Role :: Role
  MustChangePassword :: bool

definition IsAdmin :: "User \<Rightarrow> bool" where
  "IsAdmin u = (Role u = RoleAdmin)"

definition IsHR :: "User \<Rightarrow> bool" where
  "IsHR u = (Role u = RoleHR)"

definition IsEmployee :: "User \<Rightarrow> bool" where
  "IsEmployee u = (Role u = RoleEmployee)"

definition CanManageOvertimeFor :: "User \<Rightarrow> nat \<Rightarrow> bool" where
  "CanManageOvertimeFor u userID = (if IsAdmin u then True else ID u = userID)"

definition CanViewAllOvertime :: "User \<Rightarrow> bool" where
  "CanViewAllOvertime u = (IsAdmin u \<or> IsHR u)"

definition CanExport :: "User \<Rightarrow> bool" where
  "CanExport u = (IsAdmin u \<or> IsHR u)"

definition CanCreateInvites :: "User \<Rightarrow> bool" where
  "CanCreateInvites u = IsAdmin u"

section \<open>models: invites and overtime entries (models/invite.go)\<close>

text \<open>
  \<^verbatim>\<open>type Invite struct\<close>. The fields that share a name with a field of
  \<open>User\<close> carry the prefix \<open>Invite\<close>. The preloaded associations
  \<^verbatim>\<open>Creator\<close>, \<^verbatim>\<open>Team\<close>, \<^verbatim>\<open>Project\<close> and the bookkeeping stamps are
  left out.
\<close>

record Invite =
  InviteID :: nat
  InviteDeletedAt :: "time option"
  Code :: string
  InviteFullName :: string
  InviteRole :: Role
  Used :: bool
  CreatedBy :: nat
  ExpiresAt :: time
  TeamID :: "nat option"
  ProjectID :: "nat option"

text \<open>
  \<^verbatim>\<open>func (i *Invite) IsValid() bool { return !i.Used && time.Now().Before(i.ExpiresAt) }\<close>;
  the clock reading is the first argument.
\<close>

definition IsValid :: "time \<Rightarrow> Invite \<Rightarrow> bool" where
  "IsValid now i = (\<not> Used i \<and> Before now (ExpiresAt i))"

text \<open>
  \<^verbatim>\<open>type OvertimeEntry struct\<close>: the key, the soft-delete mark and the owner.
  The payload (\<^verbatim>\<open>Date\<close>, \<^verbatim>\<open>Hours\<close>, \<^verbatim>\<open>Description\<close>) is read by none of
  the functions below.
\<close>

record OvertimeEntry =
  EntryID :: nat
  EntryDeletedAt :: "time option"
  EntryUserID :: nat

section \<open>The repository: the gorm calls the handlers make\<close>

text \<open>
  The tables behind \<^verbatim>\<open>database.GetDB()\<close>. Rows stay in the table when they are
  soft-deleted; queries on a model with a \<^verbatim>\<open>DeletedAt\<close> field see live rows only.
\<close>

record database =
  users :: "User list"
  invites :: "Invite list"
  overtime_entries :: "OvertimeEntry list"

text \<open>
  Any call may return an error for a reason outside the tables (a lost connection, a
  constraint the model does not follow). Each call site has a flag that says whether
  its call fails that way; a failed call changes nothing.
\<close>

record faults =
  auth_user_query_fails :: bool
  invite_query_fails :: bool
  username_query_fails :: bool
  create_user_fails :: bool
  update_flag_fails :: bool
  save_invite_fails :: bool
  delete_entries_fails :: bool
  delete_user_fails :: bool

text \<open>\<^verbatim>\<open>First\<close> orders by primary key and takes the first row.\<close>

definition first_by :: "('a \<Rightarrow> nat) \<Rightarrow> 'a list \<Rightarrow> 'a option" where
  "first_by key rows = (if rows = [] then None else Some (arg_min_list key rows))"

text \<open>\<^verbatim>\<open>db.First(&user, id)\<close>; \<open>None\<close> stands for a non-nil \<^verbatim>\<open>.Error\<close>.\<close>

definition First_User :: "bool \<Rightarrow> database \<Rightarrow> nat \<Rightarrow> User option" where
  "First_User fails db uid =
     (if fails then None
      else first_by ID (filter (\<lambda>u. DeletedAt u = None \<and> ID u = uid) (users db)))"

text \<open>\<^verbatim>\<open>db.Where("username = ?", username).First(&existingUser)\<close>\<close>

definition First_User_by_username :: "bool \<Rightarrow> database \<Rightarrow> string \<Rightarrow> User option" where
  "First_User_by_username fails db name =
     (if fails then None
      else first_by ID (filter (\<lambda>u. DeletedAt u = None \<and> Username u = name) (users db)))"

text \<open>\<^verbatim>\<open>db.Where("code = ?", code).First(&invite)\<close>\<close>

definition First_Invite_by_code :: "bool \<Rightarrow> database \<Rightarrow> string \<Rightarrow> Invite option" where
  "First_Invite_by_code fails db c =
     (if fails then None
      else first_by InviteID
             (filter (\<lambda>i. InviteDeletedAt i = None \<and> Code i = c) (invites db)))"

text \<open>The next value of a table's key sequence: above every key handed out so far.\<close>

definition next_id :: "nat list \<Rightarrow> nat" where
  "next_id ids = Suc (fold max ids 0)"

text \<open>
  \<^verbatim>\<open>db.Create(&user)\<close>. gorm fills a field that holds its type's zero value from
  the field's \<^verbatim>\<open>default\<close> tag: \<^verbatim>\<open>MustChangePassword\<close> is declared
  \<^verbatim>\<open>gorm:"default:true"\<close>, so a \<^verbatim>\<open>false\<close> in the struct is stored, and written
  back to the struct, as \<^verbatim>\<open>true\<close>. A zero \<^verbatim>\<open>ID\<close> is assigned from the key
  sequence. \<^verbatim>\<open>Username\<close> is declared \<^verbatim>\<open>uniqueIndex\<close>: the index covers
  soft-deleted rows too, and a duplicate makes the insert fail. The result is the
  struct after the call (\<open>None\<close> for an error) and the new tables.
\<close>

definition Create_User :: "bool \<Rightarrow> database \<Rightarrow> User \<Rightarrow> User option \<times> database" where
  "Create_User fails db u =
     (let row = u\<lparr> ID := (if ID u = 0 then next_id (map ID (users db)) else ID u),
                   MustChangePassword :=
                     (if MustChangePassword u = False then True else MustChangePassword u) \<rparr>
      in if fails \<or> Username row \<in> set (map Username (users db))
              \<or> ID row \<in> set (map ID (users db))
         then (None, db)
         else (Some row, db\<lparr> users := users db @ [row] \<rparr>))"

text \<open>
  \<^verbatim>\<open>db.Model(&user).Update("must_change_password", v)\<close>: one column of the live
  row with the struct's key; gorm refuses an update without a key. The result says
  whether the call succeeded.
\<close>

definition Update_must_change_password ::
    "bool \<Rightarrow> database \<Rightarrow> User \<Rightarrow> bool \<Rightarrow> bool \<times> database" where
  "Update_must_change_password fails db u v =
     (if fails \<or> ID u = 0 then (False, db)
      else (True, db\<lparr> users :=
              map (\<lambda>row. if ID row = ID u \<and> DeletedAt row = None
                         then row\<lparr> MustChangePassword := v \<rparr> else row) (users db) \<rparr>))"

text \<open>
  \<^verbatim>\<open>db.Save(&invite)\<close>: writes every field of the struct to the row with its
  key, and inserts the struct when there is no such row (or the key is zero).
\<close>

definition Save_Invite :: "bool \<Rightarrow> database \<Rightarrow> Invite \<Rightarrow> bool \<times> database" where
  "Save_Invite fails db i =
     (if fails then (False, db)
      else if InviteID i = 0
        then (True, db\<lparr> invites :=
                invites db @ [i\<lparr> InviteID := next_id (map InviteID (invites db)) \<rparr>] \<rparr>)
      else if InviteID i \<in> set (map InviteID (invites db))
        then (True, db\<lparr> invites :=
                map (\<lambda>row. if InviteID row = InviteID i then i else row) (invites db) \<rparr>)
      else (True, db\<lparr> invites := invites db @ [i] \<rparr>))"

text \<open>
  \<^verbatim>\<open>db.Where("user_id = ?", id).Delete(&models.OvertimeEntry{})\<close>: a soft delete,
  stamping the live rows of that owner with the time of the call.
\<close>

definition Delete_OvertimeEntries_of ::
    "bool \<Rightarrow> time \<Rightarrow> database \<Rightarrow> nat \<Rightarrow> bool \<times> database" where
  "Delete_OvertimeEntries_of fails now db uid =
     (if fails then (False, db)
      else (True, db\<lparr> overtime_entries :=
              map (\<lambda>e. if EntryUserID e = uid \<and> EntryDeletedAt e = None
                       then e\<lparr> EntryDeletedAt := Some now \<rparr> else e) (overtime_entries db) \<rparr>))"

text \<open>\<^verbatim>\<open>db.Delete(&models.User{}, id)\<close>: a soft delete of the live row with that key.\<close>

definition Delete_User :: "bool \<Rightarrow> time \<Rightarrow> database \<Rightarrow> nat \<Rightarrow> bool \<times> database" where
  "Delete_User fails now db uid =
     (if fails then (False, db)
      else (True, db\<lparr> users :=
              map (\<lambda>u. if ID u = uid \<and> DeletedAt u = None
                       then u\<lparr> DeletedAt := Some now \<rparr> else u) (users db) \<rparr>))"

section \<open>Requests and responses (net/http)\<close>

text \<open>
  What the handlers read of an \<^verbatim>\<open>*http.Request\<close>: the method, \<^verbatim>\<open>r.URL.Path\<close>,
  the cookies and header fields in the order they were sent, the parsed form (with
  the error \<^verbatim>\<open>r.ParseForm()\<close> returns), and the user stored in the request
  context under \<^verbatim>\<open>UserContextKey\<close>.
\<close>

record request =
  Method :: string
  URLPath :: string
  Cookies :: "(string \<times> string) list"
  Header :: "(string \<times> string) list"
  Form :: "(string \<times> string) list"
  FormError :: bool
  ContextUser :: "User option"

text \<open>\<^verbatim>\<open>r.Cookie(name)\<close>: the first cookie of that name, \<open>None\<close> for \<^verbatim>\<open>ErrNoCookie\<close>.\<close>

definition Cookie :: "request \<Rightarrow> string \<Rightarrow> string option" where
  "Cookie r name = map_of (Cookies r) name"

text \<open>\<^verbatim>\<open>r.Header.Get(key)\<close>: the first value of the field, the empty string without one.\<close>

definition Header_Get :: "request \<Rightarrow> string \<Rightarrow> string" where
  "Header_Get r key = (case map_of (Header r) key of None \<Rightarrow> [] | Some v \<Rightarrow> v)"

text \<open>\<^verbatim>\<open>r.FormValue(key)\<close>\<close>

definition FormValue :: "request \<Rightarrow> string \<Rightarrow> string" where
  "FormValue r key = (case map_of (Form r) key of None \<Rightarrow> [] | Some v \<Rightarrow> v)"

text \<open>\<^verbatim>\<open>strings.Split(s, sep)\<close> for a separator of one byte.\<close>

fun Split :: "string \<Rightarrow> char \<Rightarrow> string list" where
  "Split [] sep = [[]]"
| "Split (c # cs) sep =
     (if c = sep then [] # Split cs sep
      else (case Split cs sep of [] \<Rightarrow> [[c]] | p # ps \<Rightarrow> (c # p) # ps))"

text \<open>
  \<^verbatim>\<open>strconv.ParseUint(s, 10, 32)\<close>: decimal digits only, at least one, and a value
  below \<open>2^32\<close>; \<open>None\<close> for either error.
\<close>

fun parse_digits :: "nat \<Rightarrow> string \<Rightarrow> nat option" where
  "parse_digits n [] = Some n"
| "parse_digits n (c # cs) =
     (if 48 \<le> (of_char c :: nat) \<and> (of_char c :: nat) \<le> 57
      then (let n1 = n * 10 + ((of_char c :: nat) - 48)
            in if n1 > 4294967295 then None else parse_digits n1 cs)
      else None)"

definition ParseUint :: "string \<Rightarrow> nat option" where
  "ParseUint s = (if s = [] then None else parse_digits 0 s)"

text \<open>\<^verbatim>\<open>http.Cookie\<close> as the handlers set it.\<close>

datatype SameSite = SameSiteDefaultMode | SameSiteStrictMode

record SetCookie =
  Name :: string
  Value :: string
  Path :: string
  MaxAge :: int
  HttpOnly :: bool
  SameSite :: SameSite

text \<open>
  What a handler writes: \<^verbatim>\<open>http.Redirect(w, r, url, code)\<close>,
  \<^verbatim>\<open>http.Error(w, msg, code)\<close>, a bare status, an executed template, or a panic
  (a nil dereference). A response is the cookies set, in order, and that reply.
\<close>

datatype reply =
    Redirect string nat
  | Error string nat
  | Status nat
  | Template string
  | Panic

type_synonym response = "SetCookie list \<times> reply"

definition StatusSeeOther :: nat where "StatusSeeOther = 303"
definition StatusBadRequest :: nat where "StatusBadRequest = 400"
definition StatusUnauthorized :: nat where "StatusUnauthorized = 401"
definition StatusForbidden :: nat where "StatusForbidden = 403"
definition StatusNotFound :: nat where "StatusNotFound = 404"
definition StatusMethodNotAllowed :: nat where "StatusMethodNotAllowed = 405"
definition StatusInternalServerError :: nat where "StatusInternalServerError = 500"

text \<open>A handler reads the request and the tables and leaves a response and the tables.\<close>

type_synonym handler = "request \<Rightarrow> database \<Rightarrow> response \<times> database"

section \<open>Signed tokens (github.com/golang-jwt/jwt/v5, as the middleware uses it)\<close>

text \<open>
  \<^verbatim>\<open>type Claims struct\<close> of the middleware, with the three time fields of the
  embedded \<^verbatim>\<open>jwt.RegisteredClaims\<close> under their JSON names. A
  \<^verbatim>\<open>*jwt.NumericDate\<close> is an optional instant.
\<close>

record Claims =
  UserID :: nat
  ClaimsUsername :: string
  ClaimsRole :: Role
  exp :: "time option"
  nbf :: "time option"
  iat :: "time option"

text \<open>\<^verbatim>\<open>jwt.NewNumericDate(t)\<close> truncates to \<^verbatim>\<open>jwt.TimePrecision\<close>, one second.\<close>

definition NewNumericDate :: "time \<Rightarrow> time option" where
  "NewNumericDate t = Some (Truncate t Second)"

text \<open>
  The signature is symbolic: the value \<open>HMAC alg key (alg, claims)\<close> stands for the
  MAC that the method \<open>alg\<close> computes under \<open>key\<close> over the encoded header and
  claims. Two signatures are equal only when method, key and signed content are.
\<close>

datatype signature = Unsigned | HMAC string string "string \<times> Claims"

text \<open>
  \<^verbatim>\<open>jwt.Token\<close> as it is on the wire: method, claims and signature. Its field
  \<^verbatim>\<open>Valid\<close> is set by parsing and travels beside the token.
\<close>

record Token =
  TokenMethod :: string
  TokenClaims :: Claims
  TokenSignature :: signature

text \<open>
  The compact serialisation (base64url of JSON, joined by dots) belongs to the
  library and is a parameter: \<open>encode\<close> writes a token as a string, \<open>decode\<close>
  reads a string (\<open>None\<close> when it is malformed).
\<close>

record codec =
  encode :: "Token \<Rightarrow> string"
  decode :: "string \<Rightarrow> Token option"

datatype jwt_error =
    ErrTokenMalformed
  | ErrTokenUnverifiable
  | ErrTokenSignatureInvalid
  | ErrTokenExpired
  | ErrTokenNotValidYet
  | ErrSignatureInvalid

definition SigningMethodHS256 :: string where
  "SigningMethodHS256 = ''HS256''"

text \<open>\<^verbatim>\<open>jwt.NewWithClaims(method, claims)\<close>\<close>

definition NewWithClaims :: "string \<Rightarrow> Claims \<Rightarrow> Token" where
  "NewWithClaims method claims =
     \<lparr> TokenMethod = method, TokenClaims = claims, TokenSignature = Unsigned \<rparr>"

text \<open>\<^verbatim>\<open>token.SignedString(key)\<close> with a \<^verbatim>\<open>[]byte\<close> key and an HMAC method.\<close>

definition SignedString :: "codec \<Rightarrow> Token \<Rightarrow> string \<Rightarrow> jwt_error + string" where
  "SignedString cd token key =
     Inr (encode cd (token\<lparr> TokenSignature :=
            HMAC (TokenMethod token) key (TokenMethod token, TokenClaims token) \<rparr>))"

text \<open>
  The library's claim validation with default options, at clock reading \<open>now\<close>:
  an expiry that is present must lie strictly after \<open>now\<close>, a not-before that is
  present must not lie after it; issued-at is not checked.
\<close>

definition Validate :: "time \<Rightarrow> Claims \<Rightarrow> jwt_error option" where
  "Validate now c =
     (case exp c of
        Some e \<Rightarrow> if Before now e then
                    (case nbf c of
                       Some n \<Rightarrow> if Before now n then Some ErrTokenNotValidYet else None
                     | None \<Rightarrow> None)
                  else Some ErrTokenExpired
      | None \<Rightarrow>
          (case nbf c of
             Some n \<Rightarrow> if Before now n then Some ErrTokenNotValidYet else None
           | None \<Rightarrow> None))"

text \<open>
  \<^verbatim>\<open>jwt.ParseWithClaims(tokenString, &Claims{}, keyFunc)\<close> where \<open>keyFunc\<close>
  returns the byte string \<open>key\<close> whatever the token's method: the string is decoded,
  the method must be known, the signature is checked first (a byte-string key fits
  the HMAC methods only), then the claims are validated. On success the token comes
  back with \<^verbatim>\<open>Valid\<close> set: the second component of the result.
\<close>

definition hmac_methods :: "string list" where
  "hmac_methods = [''HS256'', ''HS384'', ''HS512'']"

definition other_methods :: "string list" where
  "other_methods = [''RS256'', ''RS384'', ''RS512'', ''ES256'', ''ES384'', ''ES512'',
                    ''PS256'', ''PS384'', ''PS512'', ''EdDSA'', ''none'']"

definition ParseWithClaims ::
    "codec \<Rightarrow> string \<Rightarrow> string \<Rightarrow> time \<Rightarrow> jwt_error + Token \<times> bool" where
  "ParseWithClaims cd tokenString key now =
     (case decode cd tokenString of
        None \<Rightarrow> Inl ErrTokenMalformed
      | Some token \<Rightarrow>
          if TokenMethod token \<in> set other_methods then Inl ErrTokenSignatureInvalid
          else if TokenMethod token \<notin> set hmac_methods then Inl ErrTokenUnverifiable
          else if TokenSignature token
                    \<noteq> HMAC (TokenMethod token) key (TokenMethod token, TokenClaims token)
            then Inl ErrTokenSignatureInvalid
          else (case Validate now (TokenClaims token) of
                  Some e \<Rightarrow> Inl e
                | None \<Rightarrow> Inr (token, True)))"

section \<open>middleware/auth.go\<close>

text \<open>
  The package variable \<^verbatim>\<open>jwtSecret\<close>, set once by \<^verbatim>\<open>SetJWTSecret\<close>, is the
  argument \<open>jwtSecret\<close> of the functions that read it.

  \<^verbatim>\<open>GenerateToken\<close> reads the clock twice: \<open>now1\<close> is the reading inside
  \<^verbatim>\<open>ExpiresAt\<close>, \<open>now2\<close> the later one inside \<^verbatim>\<open>IssuedAt\<close>.
\<close>

definition GenerateToken ::
    "codec \<Rightarrow> string \<Rightarrow> User \<Rightarrow> duration \<Rightarrow> time \<Rightarrow> time \<Rightarrow> jwt_error + string" where
  "GenerateToken cd jwtSecret user expiration now1 now2 =
     (let claims = \<lparr> UserID = ID user,
                     ClaimsUsername = Username user,
                     ClaimsRole = Role user,
                     exp = NewNumericDate (Add now1 expiration),
                     nbf = None,
                     iat = NewNumericDate now2 \<rparr>;
          token = NewWithClaims SigningMethodHS256 claims
      in SignedString cd token jwtSecret)"

definition ValidateToken :: "codec \<Rightarrow> string \<Rightarrow> time \<Rightarrow> string \<Rightarrow> jwt_error + Claims" where
  "ValidateToken cd jwtSecret now tokenString =
     (case ParseWithClaims cd tokenString jwtSecret now of
        Inl err \<Rightarrow> Inl err
      | Inr (token, valid) \<Rightarrow>
          if valid then Inr (TokenClaims token) else Inl ErrSignatureInvalid)"

definition GetUserFromContext :: "request \<Rightarrow> User option" where
  "GetUserFromContext r = ContextUser r"

text \<open>
  The first part of \<^verbatim>\<open>AuthMiddleware\<close>: the value of its variable
  \<^verbatim>\<open>tokenString\<close> when it reaches \<^verbatim>\<open>ValidateToken\<close>.
\<close>

definition tokenString :: "request \<Rightarrow> string" where
  "tokenString r =
     (let fromCookie = (case Cookie r ''token'' of Some v \<Rightarrow> v | None \<Rightarrow> [])
      in if fromCookie = [] then
           (let authHeader = Header_Get r ''Authorization''
            in if authHeader \<noteq> [] then
                 (let parts = Split authHeader (CHR '' '')
                  in if length parts = 2 \<and> parts ! 0 = ''Bearer''
                     then parts ! 1 else fromCookie)
               else fromCookie)
         else fromCookie)"

definition clearTokenCookie :: SetCookie where
  "clearTokenCookie =
     \<lparr> Name = ''token'', Value = [], Path = ''/'', MaxAge = - 1, HttpOnly = True,
       SameSite = SameSiteDefaultMode \<rparr>"

definition AuthMiddleware ::
    "codec \<Rightarrow> string \<Rightarrow> faults \<Rightarrow> time \<Rightarrow> handler \<Rightarrow> handler" where
  "AuthMiddleware cd jwtSecret flt now next r db =
     (if tokenString r = [] then (([], Redirect ''/login'' StatusSeeOther), db)
      else
        (case ValidateToken cd jwtSecret now (tokenString r) of
           Inl err \<Rightarrow> (([clearTokenCookie], Redirect ''/login'' StatusSeeOther), db)
         | Inr claims \<Rightarrow>
             (case First_User (auth_user_query_fails flt) db (UserID claims) of
                None \<Rightarrow> (([], Redirect ''/login'' StatusSeeOther), db)
              | Some user \<Rightarrow> next (r\<lparr> ContextUser := Some user \<rparr>) db)))"

definition RequirePasswordChange :: "handler \<Rightarrow> handler" where
  "RequirePasswordChange next r db =
     (case GetUserFromContext r of
        Some user \<Rightarrow>
          if MustChangePassword user then
            (if URLPath r = ''/change-password'' then next r db
             else (([], Redirect ''/change-password'' StatusSeeOther), db))
          else next r db
      | None \<Rightarrow> next r db)"

text \<open>The loop of \<^verbatim>\<open>RequireRole\<close> over its \<^verbatim>\<open>roles\<close>.\<close>

fun role_listed :: "Role list \<Rightarrow> User \<Rightarrow> bool" where
  "role_listed [] user = False"
| "role_listed (role # roles) user =
     (if Role user = role then True else role_listed roles user)"

definition RequireRole :: "Role list \<Rightarrow> handler \<Rightarrow> handler" where
  "RequireRole roles next r db =
     (case GetUserFromContext r of
        None \<Rightarrow> (([], Error ''Unauthorized'' StatusUnauthorized), db)
      | Some user \<Rightarrow>
          if role_listed roles user then next r db
          else (([], Error ''Forbidden'' StatusForbidden), db))"

section \<open>handlers/auth.go\<close>

text \<open>
  What the handlers read of their \<^verbatim>\<open>AuthHandler\<close> and of the process: the token
  codec, the secret, \<^verbatim>\<open>config.JWTExpiration\<close>, and
  \<^verbatim>\<open>bcrypt.GenerateFromPassword\<close> (\<open>None\<close> when it returns an error).
\<close>

record env =
  jwt :: codec
  secret :: string
  JWTExpiration :: duration
  bcrypt :: "string \<Rightarrow> string option"

text \<open>\<^verbatim>\<open>config.Load()\<close> fixes the session duration.\<close>

definition Load_JWTExpiration :: duration where
  "Load_JWTExpiration = 24 * Hour"

text \<open>\<^verbatim>\<open>int(d.Seconds())\<close>: whole seconds, rounded toward zero.\<close>

definition Seconds :: "duration \<Rightarrow> int" where
  "Seconds d = (if 0 \<le> d then d div Second else - ((- d) div Second))"

definition Logout :: handler where
  "Logout r db = (([clearTokenCookie], Redirect ''/login'' StatusSeeOther), db)"

text \<open>
  \<^verbatim>\<open>Register\<close>. \<open>now\<close> is the clock reading of \<^verbatim>\<open>invite.IsValid()\<close>,
  \<open>now1\<close> and \<open>now2\<close> are those of \<^verbatim>\<open>GenerateToken\<close>. The results of
  \<^verbatim>\<open>Update\<close> and \<^verbatim>\<open>Save\<close> are dropped, as in the source.
\<close>

definition Register :: "env \<Rightarrow> faults \<Rightarrow> time \<Rightarrow> time \<Rightarrow> time \<Rightarrow> handler" where
  "Register e flt now now1 now2 r db =
     (if FormError r then (([], Error ''Invalid form data'' StatusBadRequest), db)
      else
        (let code = FormValue r ''code'';
             username = FormValue r ''username'';
             password = FormValue r ''password'';
             confirmPassword = FormValue r ''confirm_password''
         in case First_Invite_by_code (invite_query_fails flt) db code of
              None \<Rightarrow> (([], Error ''Invalid invite link'' StatusBadRequest), db)
            | Some invite \<Rightarrow>
                if \<not> IsValid now invite
                  then (([], Error ''Invite link has expired or already been used''
                               StatusBadRequest), db)
                else if length username < 3
                  then (([], Redirect (''/register?code='' @ code
                               @ ''&error=Username+must+be+at+least+3+characters'')
                               StatusSeeOther), db)
                else if password \<noteq> confirmPassword
                  then (([], Redirect (''/register?code='' @ code
                               @ ''&error=Passwords+do+not+match'') StatusSeeOther), db)
                else if length password < 5
                  then (([], Redirect (''/register?code='' @ code
                               @ ''&error=Password+must+be+at+least+5+characters'')
                               StatusSeeOther), db)
                else if First_User_by_username (username_query_fails flt) db username \<noteq> None
                  then (([], Redirect (''/register?code='' @ code
                               @ ''&error=Username+already+exists'') StatusSeeOther), db)
                else
                  (case bcrypt e password of
                     None \<Rightarrow> (([], Redirect (''/register?code='' @ code
                                  @ ''&error=Failed+to+create+account'') StatusSeeOther), db)
                   | Some hashedPassword \<Rightarrow>
                       (case Create_User (create_user_fails flt) db
                               \<lparr> ID = 0, DeletedAt = None, Username = username,
                                 FullName = [], PasswordHash = hashedPassword,
                                 Role = InviteRole invite, MustChangePassword = False \<rparr> of
                          (None, _) \<Rightarrow>
                            (([], Redirect (''/register?code='' @ code
                                    @ ''&error=Failed+to+create+account'') StatusSeeOther), db)
                        | (Some user, db1) \<Rightarrow>
                            (let db2 = snd (Update_must_change_password
                                              (update_flag_fails flt) db1 user False);
                                 db3 = snd (Save_Invite (save_invite_fails flt) db2
                                              (invite\<lparr> Used := True \<rparr>))
                             in case GenerateToken (jwt e) (secret e) user (JWTExpiration e)
                                       now1 now2 of
                                  Inl err \<Rightarrow> (([], Redirect ''/login'' StatusSeeOther), db3)
                                | Inr token \<Rightarrow>
                                    (([\<lparr> Name = ''token'', Value = token, Path = ''/'',
                                         MaxAge = Seconds (JWTExpiration e), HttpOnly = True,
                                         SameSite = SameSiteStrictMode \<rparr>],
                                      Redirect ''/dashboard'' StatusSeeOther), db3))))))"

text \<open>
  \<^verbatim>\<open>DeleteUser\<close>. \<open>now1\<close> and \<open>now2\<close> are the times of the two soft deletes.
  Without a user in the context \<^verbatim>\<open>user.IsAdmin()\<close> dereferences nil and panics.
\<close>

definition DeleteUser :: "faults \<Rightarrow> time \<Rightarrow> time \<Rightarrow> handler" where
  "DeleteUser flt now1 now2 r db =
     (case GetUserFromContext r of
        None \<Rightarrow> (([], Panic), db)
      | Some user \<Rightarrow>
          if \<not> IsAdmin user then (([], Error ''Forbidden'' StatusForbidden), db)
          else if FormError r
            then (([], Redirect ''/users?error=Invalid+form+data'' StatusSeeOther), db)
          else
            (case ParseUint (FormValue r ''id'') of
               None \<Rightarrow> (([], Redirect ''/users?error=Invalid+user+ID'' StatusSeeOther), db)
             | Some uid \<Rightarrow>
                 if uid = ID user
                   then (([], Redirect ''/users?error=Cannot+delete+your+own+account''
                                StatusSeeOther), db)
                 else
                   (case Delete_OvertimeEntries_of (delete_entries_fails flt) now1 db uid of
                      (False, _) \<Rightarrow>
                        (([], Redirect ''/users?error=Failed+to+delete+user+entries''
                                StatusSeeOther), db)
                    | (True, db1) \<Rightarrow>
                        (case Delete_User (delete_user_fails flt) now2 db1 uid of
                           (False, _) \<Rightarrow>
                             (([], Redirect ''/users?error=Failed+to+delete+user''
                                     StatusSeeOther), db1)
                         | (True, db2) \<Rightarrow>
                             (([], Redirect ''/users?success=User+deleted+successfully''
                                     StatusSeeOther), db2)))))"

section \<open>main.go: the routes\<close>

text \<open>
  The router of \<^verbatim>\<open>main\<close> (the revision with the user, team and project pages).
  A route is a method, a path, the middlewares of the groups around it from the
  outside in, and its handler: the inline function of \<^verbatim>\<open>"/"\<close> or a method of
  one of the two handler structs, named as in the source. The handler methods are the
  parameter \<open>app\<close>.
\<close>

datatype middleware =
    UseAuthMiddleware
  | UseRequirePasswordChange
  | UseRequireRole "Role list"

datatype target = Inline | Named string

definition routes :: "(string \<times> string \<times> middleware list \<times> target) list" where
  "routes =
     [ (''GET'', ''/'', [], Inline),
       (''GET'', ''/login'', [], Named ''authHandler.LoginPage''),
       (''POST'', ''/login'', [], Named ''authHandler.Login''),
       (''GET'', ''/register'', [], Named ''authHandler.RegisterPage''),
       (''POST'', ''/register'', [], Named ''authHandler.Register''),
       (''GET'', ''/logout'', [UseAuthMiddleware], Named ''authHandler.Logout''),
       (''GET'', ''/change-password'', [UseAuthMiddleware],
          Named ''authHandler.ChangePasswordPage''),
       (''POST'', ''/change-password'', [UseAuthMiddleware],
          Named ''authHandler.ChangePassword''),
       (''GET'', ''/dashboard'', [UseAuthMiddleware, UseRequirePasswordChange],
          Named ''overtimeHandler.Dashboard''),
       (''GET'', ''/overtime/new'', [UseAuthMiddleware, UseRequirePasswordChange],
          Named ''overtimeHandler.NewEntryPage''),
       (''POST'', ''/overtime/new'', [UseAuthMiddleware, UseRequirePasswordChange],
          Named ''overtimeHandler.CreateEntry''),
       (''GET'', ''/overtime/edit'', [UseAuthMiddleware, UseRequirePasswordChange],
          Named ''overtimeHandler.EditEntryPage''),
       (''POST'', ''/overtime/edit'', [UseAuthMiddleware, UseRequirePasswordChange],
          Named ''overtimeHandler.UpdateEntry''),
       (''POST'', ''/overtime/delete'', [UseAuthMiddleware, UseRequirePasswordChange],
          Named ''overtimeHandler.DeleteEntry''),
       (''GET'', ''/overtime/all'',
          [UseAuthMiddleware, UseRequirePasswordChange, UseRequireRole [RoleAdmin, RoleHR]],
          Named ''overtimeHandler.AllEntriesPage''),
       (''GET'', ''/export'',
          [UseAuthMiddleware, UseRequirePasswordChange, UseRequireRole [RoleAdmin, RoleHR]],
          Named ''overtimeHandler.ExportPage''),
       (''GET'', ''/export/csv'',
          [UseAuthMiddleware, UseRequirePasswordChange, UseRequireRole [RoleAdmin, RoleHR]],
          Named ''overtimeHandler.ExportCSV''),
       (''GET'', ''/invites'',
          [UseAuthMiddleware, UseRequirePasswordChange, UseRequireRole [RoleAdmin]],
          Named ''authHandler.InvitesPage''),
       (''POST'', ''/invites'',
          [UseAuthMiddleware, UseRequirePasswordChange, UseRequireRole [RoleAdmin]],
          Named ''authHandler.CreateInvite''),
       (''GET'', ''/users'',
          [UseAuthMiddleware, UseRequirePasswordChange, UseRequireRole [RoleAdmin]],
          Named ''authHandler.UsersPage''),
       (''GET'', ''/users/edit'',
          [UseAuthMiddleware, UseRequirePasswordChange, UseRequireRole [RoleAdmin]],
          Named ''authHandler.EditUserPage''),
       (''POST'', ''/users/edit'',
          [UseAuthMiddleware, UseRequirePasswordChange, UseRequireRole [RoleAdmin]],
          Named ''authHandler.UpdateUser''),
       (''POST'', ''/users/delete'',
          [UseAuthMiddleware, UseRequirePasswordChange, UseRequireRole [RoleAdmin]],
          Named ''authHandler.DeleteUser''),
       (''GET'', ''/teams'',
          [UseAuthMiddleware, UseRequirePasswordChange, UseRequireRole [RoleAdmin]],
          Named ''authHandler.TeamsPage''),
       (''POST'', ''/teams'',
          [UseAuthMiddleware, UseRequirePasswordChange, UseRequireRole [RoleAdmin]],
          Named ''authHandler.CreateTeam''),
       (''POST'', ''/teams/delete'',
          [UseAuthMiddleware, UseRequirePasswordChange, UseRequireRole [RoleAdmin]],
          Named ''authHandler.DeleteTeam''),
       (''GET'', ''/projects'',
          [UseAuthMiddleware, UseRequirePasswordChange, UseRequireRole [RoleAdmin]],
          Named ''authHandler.ProjectsPage''),
       (''POST'', ''/projects'',
          [UseAuthMiddleware, UseRequirePasswordChange, UseRequireRole [RoleAdmin]],
          Named ''authHandler.CreateProject''),
       (''POST'', ''/projects/delete'',
          [UseAuthMiddleware, UseRequirePasswordChange, UseRequireRole [RoleAdmin]],
          Named ''authHandler.DeleteProject'') ]"

text \<open>The middlewares of a route wrap its handler, the outermost first.\<close>

fun wrap ::
    "codec \<Rightarrow> string \<Rightarrow> faults \<Rightarrow> time \<Rightarrow> middleware list \<Rightarrow> handler \<Rightarrow> handler" where
  "wrap cd jwtSecret flt now [] h = h"
| "wrap cd jwtSecret flt now (UseAuthMiddleware # ms) h =
     AuthMiddleware cd jwtSecret flt now (wrap cd jwtSecret flt now ms h)"
| "wrap cd jwtSecret flt now (UseRequirePasswordChange # ms) h =
     RequirePasswordChange (wrap cd jwtSecret flt now ms h)"
| "wrap cd jwtSecret flt now (UseRequireRole roles # ms) h =
     RequireRole roles (wrap cd jwtSecret flt now ms h)"

definition resolve :: "(string \<Rightarrow> handler) \<Rightarrow> target \<Rightarrow> handler" where
  "resolve app t =
     (case t of
        Inline \<Rightarrow> (\<lambda>r db. (([], Redirect ''/login'' StatusSeeOther), db))
      | Named n \<Rightarrow> app n)"

text \<open>\<^verbatim>\<open>chimiddleware.Recoverer\<close> answers a panic with status 500.\<close>

definition Recoverer :: "handler \<Rightarrow> handler" where
  "Recoverer next r db =
     (case next r db of
        ((cookies, Panic), db') \<Rightarrow> ((cookies, Status StatusInternalServerError), db')
      | other \<Rightarrow> other)"

definition lookup_route ::
    "string \<Rightarrow> string \<Rightarrow> (string \<times> string \<times> middleware list \<times> target) option" where
  "lookup_route m p = find (\<lambda>(m', p', ms, t). m' = m \<and> p' = p) routes"

text \<open>
  The router: the route of the request's method and path behind the recoverer;
  status 405 for a known path under another method, 404 for an unknown path.
  \<open>now\<close> is the clock reading of the token check.
\<close>

definition ServeHTTP ::
    "codec \<Rightarrow> string \<Rightarrow> faults \<Rightarrow> time \<Rightarrow> (string \<Rightarrow> handler) \<Rightarrow> handler" where
  "ServeHTTP cd jwtSecret flt now app r db =
     (case lookup_route (Method r) (URLPath r) of
        Some (m, p, ms, t) \<Rightarrow>
          Recoverer (wrap cd jwtSecret flt now ms (resolve app t)) r db
      | None \<Rightarrow>
          if URLPath r \<in> set (map (\<lambda>(m', p', ms, t). p') routes)
          then (([], Status StatusMethodNotAllowed), db)
          else (([], Error ''404 page not found'' StatusNotFound), db))"

section \<open>Notions used in the statements\<close>

text \<open>
  The codec reads the string \<open>tok\<close> back as the token that was written into it.
  A lossless serialisation does so for every string it produces.
\<close>

definition faithful_at :: "codec \<Rightarrow> string \<Rightarrow> bool" where
  "faithful_at cd tok = (\<forall>t. encode cd t = tok \<longrightarrow> decode cd tok = Some t)"

text \<open>
  A request is authenticated as \<open>user\<close>: it carries a token, the token verifies,
  and the user row of its subject is found. These are the conditions under which
  \<open>AuthMiddleware\<close> calls the next handler.
\<close>

definition authenticated ::
    "codec \<Rightarrow> string \<Rightarrow> faults \<Rightarrow> time \<Rightarrow> request \<Rightarrow> database \<Rightarrow> User \<Rightarrow> bool" where
  "authenticated cd jwtSecret flt now r db user =
     (tokenString r \<noteq> []
      \<and> (\<exists>claims. ValidateToken cd jwtSecret now (tokenString r) = Inr claims
             \<and> First_User (auth_user_query_fails flt) db (UserID claims) = Some user))"

text \<open>A request with no token at all: no cookie of that name and no authorization field.\<close>

definition no_token :: "request \<Rightarrow> bool" where
  "no_token r = (Cookie r ''token'' = None \<and> Header_Get r ''Authorization'' = [])"

text \<open>The struct that \<open>Register\<close> hands to \<^verbatim>\<open>Create\<close>.\<close>

definition new_user :: "request \<Rightarrow> Invite \<Rightarrow> string \<Rightarrow> User" where
  "new_user r invite hashedPassword =
     \<lparr> ID = 0, DeletedAt = None, Username = FormValue r ''username'', FullName = [],
       PasswordHash = hashedPassword, Role = InviteRole invite, MustChangePassword = False \<rparr>"

text \<open>
  A registration submission that reaches the \<^verbatim>\<open>Create\<close> call of \<open>Register\<close>:
  the form parses, the invite \<open>invite\<close> is found by its code and is valid at \<open>now\<close>,
  the form checks pass, no live user has the name, and the password hashes to
  \<open>hashedPassword\<close>.
\<close>

definition passes_checks ::
    "env \<Rightarrow> faults \<Rightarrow> time \<Rightarrow> request \<Rightarrow> database \<Rightarrow> Invite \<Rightarrow> string \<Rightarrow> bool" where
  "passes_checks e flt now r db invite hashedPassword =
     (\<not> FormError r
      \<and> First_Invite_by_code (invite_query_fails flt) db (FormValue r ''code'') = Some invite
      \<and> IsValid now invite
      \<and> 3 \<le> length (FormValue r ''username'')
      \<and> FormValue r ''confirm_password'' = FormValue r ''password''
      \<and> 5 \<le> length (FormValue r ''password'')
      \<and> First_User_by_username (username_query_fails flt) db (FormValue r ''username'') = None
      \<and> bcrypt e (FormValue r ''password'') = Some hashedPassword)"

text \<open>
  The shapes a route of \<open>routes\<close> has: public; behind the token check only, which
  are the logout and change-password routes; behind the password gate too; and
  behind a role gate after both.
\<close>

fun well_gated :: "string \<times> string \<times> middleware list \<times> target \<Rightarrow> bool" where
  "well_gated (m, p, [], t) = True"
| "well_gated (m, p, [UseAuthMiddleware], t) = (p = ''/change-password'' \<or> p = ''/logout'')"
| "well_gated (m, p, [UseAuthMiddleware, UseRequirePasswordChange], t) =
     (p \<noteq> ''/change-password'' \<and> p \<noteq> ''/logout'')"
| "well_gated (m, p, [UseAuthMiddleware, UseRequirePasswordChange, UseRequireRole roles], t) =
     (p \<noteq> ''/change-password'' \<and> p \<noteq> ''/logout'')"
| "well_gated (m, p, ms, t) = False"

section \<open>Example data\<close>

text \<open>A codec given by a finite table of strings and the tokens they stand for.\<close>

definition table_codec :: "(string \<times> Token) list \<Rightarrow> codec" where
  "table_codec tbl =
     \<lparr> encode = (\<lambda>t. case find (\<lambda>(s, t'). t' = t) tbl of Some (s, t') \<Rightarrow> s | None \<Rightarrow> []),
       decode = map_of tbl \<rparr>"

definition root :: User where
  "root = \<lparr> ID = 1, DeletedAt = None, Username = ''admin'', FullName = ''Administrator'',
            PasswordHash = ''$2a$10$r'', Role = RoleAdmin, MustChangePassword = False \<rparr>"

definition alice :: User where
  "alice = \<lparr> ID = 7, DeletedAt = None, Username = ''alice'', FullName = ''Alice'',
             PasswordHash = ''$2a$10$a'', Role = RoleEmployee, MustChangePassword = True \<rparr>"

definition bob :: User where
  "bob = \<lparr> ID = 8, DeletedAt = None, Username = ''bob'', FullName = ''Bob'',
           PasswordHash = ''$2a$10$b'', Role = RoleEmployee, MustChangePassword = False \<rparr>"

text \<open>A soft-deleted account: its name is still in the unique index.\<close>

definition dave :: User where
  "dave = \<lparr> ID = 9, DeletedAt = Some 100, Username = ''dave'', FullName = ''Dave'',
            PasswordHash = ''$2a$10$d'', Role = RoleEmployee, MustChangePassword = False \<rparr>"

text \<open>The row that registering the name carol with the password s3cret inserts.\<close>

definition carol :: User where
  "carol = \<lparr> ID = 10, DeletedAt = None, Username = ''carol'', FullName = [],
             PasswordHash = ''$2a$10$s3cret'', Role = RoleEmployee, MustChangePassword = True \<rparr>"

text \<open>
  Alice's token was issued with clock readings one nanosecond apart, on either side
  of the first full second; Bob's with both readings inside one second.
\<close>

definition alice_claims :: Claims where
  "alice_claims = \<lparr> UserID = 7, ClaimsUsername = ''alice'', ClaimsRole = ''EMPLOYEE'',
                    exp = Some 86400000000000, nbf = None, iat = Some 1000000000 \<rparr>"

definition alice_token :: Token where
  "alice_token = \<lparr> TokenMethod = ''HS256'', TokenClaims = alice_claims,
                   TokenSignature = HMAC ''HS256'' ''k'' (''HS256'', alice_claims) \<rparr>"

definition bob_claims :: Claims where
  "bob_claims = \<lparr> UserID = 8, ClaimsUsername = ''bob'', ClaimsRole = ''EMPLOYEE'',
                  exp = Some 86401000000000, nbf = None, iat = Some 1000000000 \<rparr>"

definition bob_token :: Token where
  "bob_token = \<lparr> TokenMethod = ''HS256'', TokenClaims = bob_claims,
                 TokenSignature = HMAC ''HS256'' ''k'' (''HS256'', bob_claims) \<rparr>"

definition sample_codec :: codec where
  "sample_codec = table_codec [(''h.alice.s'', alice_token), (''h.bob.s'', bob_token)]"

definition sample_invite :: Invite where
  "sample_invite = \<lparr> InviteID = 3, InviteDeletedAt = None, Code = ''c0de'',
                     InviteFullName = ''Carol'', InviteRole = RoleEmployee, Used = False,
                     CreatedBy = 1, ExpiresAt = 604800000000000, TeamID = None,
                     ProjectID = None \<rparr>"

definition sample_db :: database where
  "sample_db = \<lparr> users = [root, alice, bob, dave], invites = [sample_invite],
                 overtime_entries =
                   [\<lparr> EntryID = 1, EntryDeletedAt = None, EntryUserID = 1 \<rparr>] \<rparr>"

definition no_faults :: faults where
  "no_faults = \<lparr> auth_user_query_fails = False, invite_query_fails = False,
                 username_query_fails = False, create_user_fails = False,
                 update_flag_fails = False, save_invite_fails = False,
                 delete_entries_fails = False, delete_user_fails = False \<rparr>"

definition sample_env :: env where
  "sample_env = \<lparr> jwt = sample_codec, secret = ''k'', JWTExpiration = Load_JWTExpiration,
                  bcrypt = (\<lambda>p. if length p \<le> 72 then Some (''$2a$10$'' @ p) else None) \<rparr>"

text \<open>Handler methods: the logout handler as modelled, a named page for every other.\<close>

definition sample_app :: "string \<Rightarrow> handler" where
  "sample_app name =
     (if name = ''authHandler.Logout'' then Logout
      else (\<lambda>r db. (([], Template name), db)))"

definition sample_request :: "string \<Rightarrow> string \<Rightarrow> (string \<times> string) list \<Rightarrow> request" where
  "sample_request m p cookies =
     \<lparr> Method = m, URLPath = p, Cookies = cookies, Header = [], Form = [],
       FormError = False, ContextUser = None \<rparr>"

definition registration :: "string \<Rightarrow> request" where
  "registration name =
     \<lparr> Method = ''POST'', URLPath = ''/register'', Cookies = [], Header = [],
       Form = [(''code'', ''c0de''), (''username'', name), (''password'', ''s3cret''),
               (''confirm_password'', ''s3cret'')],
       FormError = False, ContextUser = None \<rparr>"

definition bearer_request :: "string \<Rightarrow> request" where
  "bearer_request cookie_value =
     \<lparr> Method = ''GET'', URLPath = ''/dashboard'', Cookies = [(''token'', cookie_value)],
       Header = [(''Authorization'', ''Bearer h.bob.s'')], Form = [],
       FormError = False, ContextUser = None \<rparr>"

definition delete_request :: "string \<Rightarrow> request" where
  "delete_request target =
     \<lparr> Method = ''POST'', URLPath = ''/users/delete'', Cookies = [], Header = [],
       Form = [(''id'', target)], FormError = False, ContextUser = Some root \<rparr>"

section \<open>Facts about the example data\<close>

lemma sample_codec_encode:
  "encode sample_codec t =
     (if t = alice_token then ''h.alice.s'' else if t = bob_token then ''h.bob.s'' else [])"
  by (simp add: sample_codec_def table_codec_def)

lemma sample_codec_decode:
  "decode sample_codec s =
     (if s = ''h.alice.s'' then Some alice_token
      else if s = ''h.bob.s'' then Some bob_token else None)"
  by (auto simp add: sample_codec_def table_codec_def)

lemma tokens_differ: "alice_token \<noteq> bob_token"
  by (simp add: alice_token_def bob_token_def alice_claims_def bob_claims_def)

lemma sample_codec_faithful:
  "faithful_at sample_codec ''h.alice.s''" "faithful_at sample_codec ''h.bob.s''"
  using tokens_differ
  by (auto simp add: faithful_at_def sample_codec_encode sample_codec_decode)

lemma registration_code [simp]: "FormValue (registration name) ''code'' = ''c0de''"
  by (simp add: registration_def FormValue_def)

lemma First_User_sample:
  "First_User False sample_db 7 = Some alice" "First_User False sample_db 8 = Some bob"
  by (simp_all add: First_User_def first_by_def sample_db_def root_def alice_def bob_def
      dave_def)

lemma tokenString_sample:
  "tokenString (sample_request m p [(''token'', v)]) = v"
  "tokenString (sample_request m p []) = []"
  by (simp_all add: tokenString_def sample_request_def Cookie_def Header_Get_def)

lemma lookup_route_sample:
  "lookup_route ''GET'' ''/invites'' =
     Some (''GET'', ''/invites'',
           [UseAuthMiddleware, UseRequirePasswordChange, UseRequireRole [RoleAdmin]],
           Named ''authHandler.InvitesPage'')"
  "lookup_route ''GET'' ''/logout'' =
     Some (''GET'', ''/logout'', [UseAuthMiddleware], Named ''authHandler.Logout'')"
  "lookup_route ''GET'' ''/dashboard'' =
     Some (''GET'', ''/dashboard'', [UseAuthMiddleware, UseRequirePasswordChange],
           Named ''overtimeHandler.Dashboard'')"
  by (simp_all add: lookup_route_def routes_def)

lemma parsing_examples:
  "ParseUint ''007'' = Some 7" "ParseUint ''+7'' = None" "ParseUint [] = None"
  "ParseUint ''4294967295'' = Some 4294967295" "ParseUint ''4294967296'' = None"
  "Split ''Bearer abc'' (CHR '' '') = [''Bearer'', ''abc'']"
  "Split ''a  b'' (CHR '' '') = [''a'', [], ''b'']"
  by (simp_all add: ParseUint_def)

section \<open>Token service\<close>

text \<open>The token that \<open>GenerateToken\<close> serialises.\<close>

lemma GenerateToken_encodes:
  "GenerateToken cd jwtSecret user expiration now1 now2 =
     Inr (encode cd
       \<lparr> TokenMethod = ''HS256'',
         TokenClaims = \<lparr> UserID = ID user, ClaimsUsername = Username user,
                         ClaimsRole = Role user,
                         exp = Some (Truncate (Add now1 expiration) Second),
                         nbf = None, iat = Some (Truncate now2 Second) \<rparr>,
         TokenSignature = HMAC ''HS256'' jwtSecret (''HS256'',
                       \<lparr> UserID = ID user, ClaimsUsername = Username user,
                         ClaimsRole = Role user,
                         exp = Some (Truncate (Add now1 expiration) Second),
                         nbf = None, iat = Some (Truncate now2 Second) \<rparr>) \<rparr>)"
  by (simp add: GenerateToken_def SignedString_def NewWithClaims_def SigningMethodHS256_def
      NewNumericDate_def Let_def)

lemma GenerateToken_alice:
  "GenerateToken sample_codec ''k'' alice Load_JWTExpiration 999999999 1000000000
     = Inr ''h.alice.s''"
  by (simp add: GenerateToken_encodes sample_codec_encode alice_def alice_token_def
      alice_claims_def Load_JWTExpiration_def Hour_def Second_def Truncate_def Add_def
      RoleEmployee_def)

lemma GenerateToken_bob:
  "GenerateToken sample_codec ''k'' bob Load_JWTExpiration 1000000000 1000000001
     = Inr ''h.bob.s''"
  by (simp add: GenerateToken_encodes sample_codec_encode bob_def bob_token_def
      bob_claims_def alice_token_def alice_claims_def Add_def
      Load_JWTExpiration_def Hour_def Second_def Truncate_def RoleEmployee_def)

lemma ValidateToken_alice:
  "ValidateToken sample_codec ''k'' 5000000000 ''h.alice.s'' = Inr alice_claims"
  by (simp add: ValidateToken_def ParseWithClaims_def sample_codec_decode alice_token_def
      alice_claims_def hmac_methods_def other_methods_def Validate_def Before_def)

lemma ValidateToken_bob:
  "ValidateToken sample_codec ''k'' 5000000000 ''h.bob.s'' = Inr bob_claims"
  by (simp add: ValidateToken_def ParseWithClaims_def sample_codec_decode bob_token_def
      bob_claims_def hmac_methods_def other_methods_def Validate_def Before_def)

text \<open>
  C1. For every user record and expiration duration, \<open>GenerateToken\<close> returns a
  token, and \<open>ValidateToken\<close> applied to that token under the same secret, at any
  clock reading strictly before the token's expiry, succeeds and yields claims whose
  \<open>UserID\<close>, \<open>Username\<close> and \<open>Role\<close> are the user's id, username and role.
  The expiry is the first clock reading of \<open>GenerateToken\<close> plus the duration, in
  whole seconds. The library's serialisation enters as the assumption that the codec
  reads the issued string back as the token written into it.
\<close>

theorem ValidateToken_GenerateToken:
  "\<exists>tok. GenerateToken cd jwtSecret user expiration now1 now2 = Inr tok
     \<and> (faithful_at cd tok \<and> now < Truncate (Add now1 expiration) Second \<longrightarrow>
          (\<exists>claims. ValidateToken cd jwtSecret now tok = Inr claims
             \<and> UserID claims = ID user
             \<and> ClaimsUsername claims = Username user
             \<and> ClaimsRole claims = Role user
             \<and> exp claims = Some (Truncate (Add now1 expiration) Second)))"
proof -
  let ?c = "\<lparr> UserID = ID user, ClaimsUsername = Username user, ClaimsRole = Role user,
              exp = Some (Truncate (Add now1 expiration) Second),
              nbf = None, iat = Some (Truncate now2 Second) \<rparr>"
  let ?t = "\<lparr> TokenMethod = ''HS256'', TokenClaims = ?c,
              TokenSignature = HMAC ''HS256'' jwtSecret (''HS256'', ?c) \<rparr>"
  have gen: "GenerateToken cd jwtSecret user expiration now1 now2 = Inr (encode cd ?t)"
    by (rule GenerateToken_encodes)
  have "ValidateToken cd jwtSecret now (encode cd ?t) = Inr ?c"
    if codec: "faithful_at cd (encode cd ?t)"
      and live: "now < Truncate (Add now1 expiration) Second"
  proof -
    from codec have dec: "decode cd (encode cd ?t) = Some ?t"
      by (simp add: faithful_at_def)
    have val: "Validate now ?c = None"
      using live by (simp add: Validate_def Before_def)
    show ?thesis
      using dec val
      by (simp add: ValidateToken_def ParseWithClaims_def hmac_methods_def other_methods_def)
  qed
  with gen show ?thesis by simp
qed

theorem ValidateToken_GenerateToken_witness:
  "GenerateToken sample_codec ''k'' alice Load_JWTExpiration 999999999 1000000000
     = Inr ''h.alice.s''
   \<and> (\<exists>claims. ValidateToken sample_codec ''k'' 5000000000 ''h.alice.s'' = Inr claims
         \<and> UserID claims = 7
         \<and> ClaimsUsername claims = ''alice''
         \<and> ClaimsRole claims = ''EMPLOYEE'')"
proof -
  have live: "(5000000000 :: int) < Truncate (Add 999999999 Load_JWTExpiration) Second"
    by (simp add: Truncate_def Add_def Load_JWTExpiration_def Hour_def Second_def)
  from ValidateToken_GenerateToken [of sample_codec "''k''" alice Load_JWTExpiration
      999999999 1000000000 5000000000]
  show ?thesis
    using GenerateToken_alice sample_codec_faithful(1) live
    by (auto simp add: alice_def RoleEmployee_def)
qed

text \<open>
  When the duration is a whole number of seconds, as the configured one is, the
  expiry claim is the issued-at claim plus the duration exactly when the two clock
  readings of \<open>GenerateToken\<close> fall into the same second.
\<close>

lemma Truncate_Second_add:
  assumes "D mod Second = 0"
  shows "Truncate (Add n D) Second = Truncate n Second + D"
proof -
  from assms obtain k where k: "D = k * Second"
    by (metis mod_eq_0_iff_dvd dvd_def mult.commute)
  have pos: "0 < Second" by (simp add: Second_def)
  have "(n + k * Second) div Second = n div Second + k"
    using pos by simp
  then show ?thesis using pos k by (simp add: Truncate_def Add_def algebra_simps)
qed

lemma Truncate_Second_eq_iff:
  "Truncate a Second = Truncate b Second \<longleftrightarrow> a div Second = b div Second"
  by (simp add: Truncate_def Second_def)

lemma Load_JWTExpiration_whole: "Load_JWTExpiration mod Second = 0"
  by (simp add: Load_JWTExpiration_def Hour_def)

lemma GenerateToken_expiry:
  assumes codec: "faithful_at cd tok"
    and gen: "GenerateToken cd jwtSecret user expiration now1 now2 = Inr tok"
    and whole: "expiration mod Second = 0"
  shows "\<exists>t e i. decode cd tok = Some t
           \<and> exp (TokenClaims t) = Some e \<and> iat (TokenClaims t) = Some i
           \<and> e = Truncate now1 Second + expiration
           \<and> i = Truncate now2 Second
           \<and> (e = i + expiration \<longleftrightarrow> now1 div Second = now2 div Second)"
proof -
  let ?c = "\<lparr> UserID = ID user, ClaimsUsername = Username user, ClaimsRole = Role user,
              exp = Some (Truncate (Add now1 expiration) Second),
              nbf = None, iat = Some (Truncate now2 Second) \<rparr>"
  let ?t = "\<lparr> TokenMethod = ''HS256'', TokenClaims = ?c,
              TokenSignature = HMAC ''HS256'' jwtSecret (''HS256'', ?c) \<rparr>"
  from gen have tok: "tok = encode cd ?t"
    by (simp add: GenerateToken_encodes)
  with codec have dec: "decode cd tok = Some ?t"
    by (simp add: faithful_at_def)
  show ?thesis
    using dec Truncate_Second_add [OF whole, of now1] Truncate_Second_eq_iff [of now1 now2]
    by simp
qed

text \<open>
  C6 (the expiry claim of a token is its issued-at claim plus the configured duration
  of 24 hours). With the first clock reading of \<open>GenerateToken\<close> one nanosecond
  before a full second and the second reading on it, the token carries an expiry of
  86400 s and an issued-at of 1 s: one second short of 24 hours apart.
\<close>

theorem GenerateToken_straddling_second:
  "GenerateToken sample_codec ''k'' alice Load_JWTExpiration 999999999 1000000000
     = Inr ''h.alice.s''
   \<and> decode sample_codec ''h.alice.s'' = Some alice_token
   \<and> exp (TokenClaims alice_token) = Some 86400000000000
   \<and> iat (TokenClaims alice_token) = Some 1000000000
   \<and> Load_JWTExpiration = 86400000000000
   \<and> (86400000000000 :: int) \<noteq> 1000000000 + Load_JWTExpiration"
proof -
  have "Load_JWTExpiration = 86400000000000"
    by (simp add: Load_JWTExpiration_def Hour_def Second_def)
  then show ?thesis
    using GenerateToken_alice
    by (simp add: sample_codec_decode alice_token_def alice_claims_def)
qed

section \<open>Permission policy\<close>

text \<open>
  C3. For every actor and every owner id, \<open>CanManageOvertimeFor\<close> is true when the
  actor's role is Admin, whatever the owner id, true when the actor's id is the owner
  id, whatever the role, and false in every other case.
\<close>

theorem CanManageOvertimeFor_iff:
  "CanManageOvertimeFor actor ownerId = (Role actor = RoleAdmin \<or> ID actor = ownerId)"
  by (simp add: CanManageOvertimeFor_def IsAdmin_def)

theorem CanManageOvertimeFor_witness:
  "CanManageOvertimeFor root 7 \<and> CanManageOvertimeFor alice 7 \<and> \<not> CanManageOvertimeFor alice 8"
  using CanManageOvertimeFor_iff [of root 7] CanManageOvertimeFor_iff [of alice 7]
    CanManageOvertimeFor_iff [of alice 8]
  by (simp add: root_def alice_def RoleAdmin_def RoleEmployee_def)

section \<open>Invite ledger and registration\<close>

lemma Register_at_Create:
  assumes "passes_checks e flt now r db invite hashedPassword"
  shows "Register e flt now now1 now2 r db =
     (case Create_User (create_user_fails flt) db (new_user r invite hashedPassword) of
        (None, x) \<Rightarrow>
          (([], Redirect (''/register?code='' @ FormValue r ''code''
                  @ ''&error=Failed+to+create+account'') StatusSeeOther), db)
      | (Some user, db1) \<Rightarrow>
          (let db2 = snd (Update_must_change_password (update_flag_fails flt) db1 user False);
               db3 = snd (Save_Invite (save_invite_fails flt) db2 (invite\<lparr> Used := True \<rparr>))
           in case GenerateToken (jwt e) (secret e) user (JWTExpiration e) now1 now2 of
                Inl err \<Rightarrow> (([], Redirect ''/login'' StatusSeeOther), db3)
              | Inr token \<Rightarrow>
                  (([\<lparr> Name = ''token'', Value = token, Path = ''/'',
                       MaxAge = Seconds (JWTExpiration e), HttpOnly = True,
                       SameSite = SameSiteStrictMode \<rparr>],
                    Redirect ''/dashboard'' StatusSeeOther), db3)))"
  using assms
  by (simp add: passes_checks_def Register_def new_user_def Let_def not_less)

lemma Register_db_after_Create:
  assumes "passes_checks e flt now r db invite hashedPassword"
    and "Create_User (create_user_fails flt) db (new_user r invite hashedPassword) = (Some user, db1)"
  shows "snd (Register e flt now now1 now2 r db) =
     snd (Save_Invite (save_invite_fails flt)
            (snd (Update_must_change_password (update_flag_fails flt) db1 user False))
            (invite\<lparr> Used := True \<rparr>))"
  using assms(2)
  by (simp add: Register_at_Create [OF assms(1)] Let_def split: sum.splits)

lemma Create_User_Some:
  assumes "Create_User fails db u = (Some row, db1)" and "ID u = 0"
  shows "users db1 = users db @ [row]" and "invites db1 = invites db"
    and "ID row \<noteq> 0" and "ID row \<notin> set (map ID (users db))"
    and "row = u\<lparr> ID := ID row, MustChangePassword := True \<rparr>"
  using assms
  by (auto simp add: Create_User_def Let_def next_id_def split: if_splits)

lemma first_by_Some:
  assumes "first_by key xs = Some x"
  shows "x \<in> set xs" and "\<And>y. y \<in> set xs \<Longrightarrow> key x \<le> key y"
proof -
  from assms have ne: "xs \<noteq> []" and x: "x = arg_min_list key xs"
    by (auto simp add: first_by_def split: if_splits)
  show "x \<in> set xs" using ne x by (simp add: arg_min_list_in)
  fix y assume "y \<in> set xs"
  then show "key x \<le> key y"
    using ne x by (simp add: f_arg_min_list_f)
qed

lemma first_by_replace:
  assumes fst: "first_by key (filter P xs) = Some x"
    and P': "P x'" and key': "key x' = key x"
  shows "first_by key (filter P (map (\<lambda>row. if key row = key x then x' else row) xs)) = Some x'"
proof -
  let ?f = "\<lambda>row. if key row = key x then x' else row"
  let ?ys = "filter P (map ?f xs)"
  from first_by_Some [OF fst] have xin: "x \<in> set xs" "P x"
    and least: "\<And>y. y \<in> set xs \<Longrightarrow> P y \<Longrightarrow> key x \<le> key y"
    by auto
  have x'in: "x' \<in> set ?ys"
    using xin P' by (auto simp add: image_iff intro!: bexI [of _ x])
  then have ne: "?ys \<noteq> []" by (metis empty_iff list.set(1))
  have mem: "\<And>y. y \<in> set ?ys \<Longrightarrow> y = x' \<or> (y \<in> set xs \<and> P y \<and> key y \<noteq> key x)"
    by (auto split: if_splits)
  let ?m = "arg_min_list key ?ys"
  have m_in: "?m \<in> set ?ys" using ne by (rule arg_min_list_in)
  have "key ?m = Min (key ` set ?ys)" using ne by (rule f_arg_min_list_f)
  then have "key ?m \<le> key x'" using x'in by simp
  with mem [OF m_in] least key' have "?m = x'"
    by (metis le_antisym)
  then show ?thesis using ne by (simp add: first_by_def)
qed

lemma passes_checks_carol:
  "passes_checks sample_env flt 5000000000 (registration ''carol'') sample_db sample_invite
     ''$2a$10$s3cret'' \<longleftrightarrow> \<not> invite_query_fails flt"
  by (simp add: passes_checks_def registration_def FormValue_def First_Invite_by_code_def
      first_by_def sample_db_def sample_invite_def IsValid_def Before_def
      First_User_by_username_def root_def alice_def bob_def dave_def sample_env_def)

lemma passes_checks_dave:
  "passes_checks sample_env no_faults 5000000000 (registration ''dave'') sample_db sample_invite
     ''$2a$10$s3cret''"
  by (simp add: passes_checks_def registration_def FormValue_def First_Invite_by_code_def
      first_by_def sample_db_def sample_invite_def IsValid_def Before_def no_faults_def
      First_User_by_username_def root_def alice_def bob_def dave_def sample_env_def)

lemma Create_User_carol:
  "Create_User False sample_db (new_user (registration ''carol'') sample_invite ''$2a$10$s3cret'')
     = (Some carol, sample_db\<lparr> users := [root, alice, bob, dave, carol] \<rparr>)"
  by (simp add: Create_User_def new_user_def registration_def FormValue_def sample_db_def
      sample_invite_def next_id_def root_def alice_def bob_def dave_def carol_def Let_def)

lemma Create_User_dave:
  "Create_User False sample_db (new_user (registration ''dave'') sample_invite ''$2a$10$s3cret'')
     = (None, sample_db)"
  by (simp add: Create_User_def new_user_def registration_def FormValue_def sample_db_def
      sample_invite_def next_id_def root_def alice_def bob_def dave_def Let_def)

text \<open>
  C2. For every invite, \<open>IsValid\<close> is true if and only if \<open>Used\<close> is false and the
  clock reading is strictly before \<open>ExpiresAt\<close>. And once a registration has
  created its account and the save of the consumed invite has succeeded, the invite
  fetched by that code from the tables \<open>Register\<close> leaves is marked used, and
  \<open>IsValid\<close> is false for it at every time. (The invite's key is positive, as
  every key drawn from the table's sequence is.)
\<close>

theorem Invite_validity:
  "(IsValid now i \<longleftrightarrow> Used i = False \<and> now < ExpiresAt i)
   \<and> (passes_checks e flt t0 r db invite hashedPassword
        \<and> fst (Create_User (create_user_fails flt) db (new_user r invite hashedPassword))
            \<noteq> None
        \<and> \<not> save_invite_fails flt \<and> 0 < InviteID invite
      \<longrightarrow> (\<exists>stored.
             First_Invite_by_code False (snd (Register e flt t0 t1 t2 r db))
               (FormValue r ''code'') = Some stored
             \<and> Used stored \<and> (\<forall>t. \<not> IsValid t stored)))"
proof (intro conjI impI)
  show "IsValid now i \<longleftrightarrow> Used i = False \<and> now < ExpiresAt i"
    by (simp add: IsValid_def Before_def)
next
  assume a: "passes_checks e flt t0 r db invite hashedPassword
        \<and> fst (Create_User (create_user_fails flt) db (new_user r invite hashedPassword))
            \<noteq> None
        \<and> \<not> save_invite_fails flt \<and> 0 < InviteID invite"
  then have chk: "passes_checks e flt t0 r db invite hashedPassword"
    and sv: "\<not> save_invite_fails flt" and pos: "0 < InviteID invite"
    by simp_all
  from a obtain user db1
    where cr: "Create_User (create_user_fails flt) db (new_user r invite hashedPassword)
            = (Some user, db1)"
    by (cases "Create_User (create_user_fails flt) db (new_user r invite hashedPassword)") auto
  let ?code = "FormValue r ''code''"
  let ?P = "\<lambda>i. InviteDeletedAt i = None \<and> Code i = ?code"
  let ?inv' = "invite\<lparr> Used := True \<rparr>"
  from chk have found: "first_by InviteID (filter ?P (invites db)) = Some invite"
    by (simp add: passes_checks_def First_Invite_by_code_def split: if_splits)
  from first_by_Some(1) [OF this] have inv_in: "invite \<in> set (invites db)" and P: "?P invite"
    by auto
  have id0: "ID (new_user r invite hashedPassword) = 0" by (simp add: new_user_def)
  have inv1: "invites db1 = invites db"
    using Create_User_Some(2) [OF cr id0] .
  have inv2: "invites (snd (Update_must_change_password (update_flag_fails flt) db1 user False))
      = invites db"
    using inv1 by (simp add: Update_must_change_password_def)
  have "invites (snd (Register e flt t0 t1 t2 r db)) =
      map (\<lambda>row. if InviteID row = InviteID invite then ?inv' else row) (invites db)"
    using sv pos imageI [OF inv_in, of InviteID] inv2
    by (simp add: Register_db_after_Create [OF chk cr] Save_Invite_def)
  moreover have "first_by InviteID
      (filter ?P (map (\<lambda>row. if InviteID row = InviteID invite then ?inv' else row) (invites db)))
      = Some ?inv'"
    using first_by_replace [OF found, of ?inv'] P by simp
  ultimately have "First_Invite_by_code False (snd (Register e flt t0 t1 t2 r db)) ?code
      = Some ?inv'"
    by (simp add: First_Invite_by_code_def)
  then show "\<exists>stored.
             First_Invite_by_code False (snd (Register e flt t0 t1 t2 r db))
               (FormValue r ''code'') = Some stored
             \<and> Used stored \<and> (\<forall>t. \<not> IsValid t stored)"
    by (simp add: IsValid_def)
qed

theorem Invite_validity_witness:
  "IsValid 5000000000 sample_invite
   \<and> (\<exists>stored.
        First_Invite_by_code False
          (snd (Register sample_env no_faults 5000000000 5000000001 5000000002
                  (registration ''carol'') sample_db)) ''c0de'' = Some stored
        \<and> Used stored \<and> (\<forall>t. \<not> IsValid t stored))"
proof -
  have chk: "passes_checks sample_env no_faults 5000000000 (registration ''carol'') sample_db
      sample_invite ''$2a$10$s3cret''"
    by (simp add: passes_checks_carol no_faults_def)
  have cr: "fst (Create_User (create_user_fails no_faults) sample_db
               (new_user (registration ''carol'') sample_invite ''$2a$10$s3cret'')) \<noteq> None"
    using Create_User_carol by (simp add: no_faults_def)
  have sv: "\<not> save_invite_fails no_faults" and pos: "0 < InviteID sample_invite"
    by (simp_all add: no_faults_def sample_invite_def)
  have valid: "\<not> Used sample_invite" "(5000000000 :: int) < ExpiresAt sample_invite"
    by (simp_all add: sample_invite_def)
  from Invite_validity [of 5000000000 sample_invite sample_env no_faults 5000000000
      "registration ''carol''" sample_db sample_invite "''$2a$10$s3cret''"
      5000000001 5000000002]
  show ?thesis
    using chk cr sv pos valid by simp
qed

text \<open>
  C7. For every registration submission that passes invite validation and reaches
  account creation, if the \<^verbatim>\<open>Create\<close> call fails, \<open>Register\<close> answers with the
  failed-to-create redirect and leaves the tables as they were: the invite fetched by
  the code is the same record, with \<open>Used\<close> still false.
\<close>

theorem Register_create_fails:
  assumes "passes_checks e flt now r db invite hashedPassword"
    and "fst (Create_User (create_user_fails flt) db (new_user r invite hashedPassword)) = None"
  shows "Register e flt now now1 now2 r db =
           (([], Redirect (''/register?code='' @ FormValue r ''code''
                   @ ''&error=Failed+to+create+account'') StatusSeeOther), db)
         \<and> invites (snd (Register e flt now now1 now2 r db)) = invites db
         \<and> First_Invite_by_code (invite_query_fails flt)
              (snd (Register e flt now now1 now2 r db)) (FormValue r ''code'') = Some invite
         \<and> \<not> Used invite"
proof -
  have reg: "Register e flt now now1 now2 r db =
           (([], Redirect (''/register?code='' @ FormValue r ''code''
                   @ ''&error=Failed+to+create+account'') StatusSeeOther), db)"
    using assms(2)
    by (cases "Create_User (create_user_fails flt) db (new_user r invite hashedPassword)")
       (simp add: Register_at_Create [OF assms(1)])
  moreover have "\<not> Used invite"
    using assms(1) by (simp add: passes_checks_def IsValid_def)
  moreover have "First_Invite_by_code (invite_query_fails flt) db (FormValue r ''code'') = Some invite"
    using assms(1) by (simp add: passes_checks_def)
  ultimately show ?thesis by simp
qed

theorem Register_create_fails_witness:
  "Register sample_env no_faults 5000000000 5000000001 5000000002 (registration ''dave'')
       sample_db
     = (([], Redirect ''/register?code=c0de&error=Failed+to+create+account'' 303), sample_db)
   \<and> First_Invite_by_code False sample_db ''c0de'' = Some sample_invite
   \<and> \<not> Used sample_invite"
proof -
  have "fst (Create_User (create_user_fails no_faults) sample_db
               (new_user (registration ''dave'') sample_invite ''$2a$10$s3cret'')) = None"
    using Create_User_dave by (simp add: no_faults_def)
  from Register_create_fails [OF passes_checks_dave this, of 5000000001 5000000002]
  show ?thesis
    by (auto simp add: StatusSeeOther_def no_faults_def)
qed

text \<open>
  When the update of the flag that follows \<^verbatim>\<open>Create\<close> succeeds, the account is
  stored with \<open>MustChangePassword\<close> false.
\<close>

lemma Register_flag_cleared:
  assumes chk: "passes_checks e flt now r db invite hashedPassword"
    and created: "fst (Create_User (create_user_fails flt) db
                         (new_user r invite hashedPassword)) \<noteq> None"
    and upd: "\<not> update_flag_fails flt"
  shows "\<exists>row. users (snd (Register e flt now now1 now2 r db)) = users db @ [row]
           \<and> Username row = FormValue r ''username''
           \<and> Role row = InviteRole invite
           \<and> \<not> MustChangePassword row"
proof -
  from created obtain user db1
    where cr: "Create_User (create_user_fails flt) db (new_user r invite hashedPassword)
            = (Some user, db1)"
    by (cases "Create_User (create_user_fails flt) db (new_user r invite hashedPassword)") auto
  have id0: "ID (new_user r invite hashedPassword) = 0" by (simp add: new_user_def)
  note c = Create_User_Some [OF cr id0]
  have user: "user = \<lparr> ID = ID user, DeletedAt = None, Username = FormValue r ''username'',
       FullName = [], PasswordHash = hashedPassword, Role = InviteRole invite,
       MustChangePassword = True \<rparr>"
    using c(5) by (simp add: new_user_def)
  have live: "DeletedAt user = None" and name: "Username user = FormValue r ''username''"
    and role: "Role user = InviteRole invite"
    by (subst user, simp)+
  have old: "map (\<lambda>row. if ID row = ID user \<and> DeletedAt row = None
                         then row\<lparr> MustChangePassword := False \<rparr> else row) (users db) = users db"
    using c(4) by (intro map_idI) (auto simp add: image_iff)
  have upd_users: "users (snd (Update_must_change_password (update_flag_fails flt) db1 user False))
      = users db @ [user\<lparr> MustChangePassword := False \<rparr>]"
    using upd c(1) c(3) live old by (simp add: Update_must_change_password_def)
  have save_users: "\<And>f d i. users (snd (Save_Invite f d i)) = users d"
    by (simp add: Save_Invite_def)
  have "users (snd (Register e flt now now1 now2 r db))
      = users db @ [user\<lparr> MustChangePassword := False \<rparr>]"
    using upd_users by (simp add: Register_db_after_Create [OF chk cr] save_users)
  then show ?thesis using name role by simp
qed

text \<open>
  C10 (an account created by \<open>Register\<close> is stored with \<open>MustChangePassword\<close>
  false). \<^verbatim>\<open>Create\<close> stores the declared default, true, in place of the struct's
  false; the flag is cleared only by the \<^verbatim>\<open>Update\<close> that follows, whose error
  \<open>Register\<close> drops. In the run below that update fails: the invite is consumed,
  the answer is the redirect to the dashboard, and carol's row is stored with the
  flag true.
\<close>

theorem Register_update_fails:
  "users (snd (Register sample_env (no_faults\<lparr> update_flag_fails := True \<rparr>)
                 5000000000 5000000001 5000000002 (registration ''carol'') sample_db))
     = [root, alice, bob, dave, carol]
   \<and> Username carol = ''carol'' \<and> MustChangePassword carol
   \<and> invites (snd (Register sample_env (no_faults\<lparr> update_flag_fails := True \<rparr>)
                 5000000000 5000000001 5000000002 (registration ''carol'') sample_db))
     = [sample_invite\<lparr> Used := True \<rparr>]
   \<and> snd (fst (Register sample_env (no_faults\<lparr> update_flag_fails := True \<rparr>)
                 5000000000 5000000001 5000000002 (registration ''carol'') sample_db))
     = Redirect ''/dashboard'' 303"
proof -
  let ?flt = "no_faults\<lparr> update_flag_fails := True \<rparr>"
  let ?run = "Register sample_env ?flt 5000000000 5000000001 5000000002
                (registration ''carol'') sample_db"
  have chk: "passes_checks sample_env ?flt 5000000000 (registration ''carol'') sample_db
      sample_invite ''$2a$10$s3cret''"
    by (simp add: passes_checks_carol no_faults_def)
  have cr: "Create_User (create_user_fails ?flt) sample_db
      (new_user (registration ''carol'') sample_invite ''$2a$10$s3cret'')
     = (Some carol, sample_db\<lparr> users := [root, alice, bob, dave, carol] \<rparr>)"
    using Create_User_carol by (simp add: no_faults_def)
  have db: "snd ?run =
      sample_db\<lparr> users := [root, alice, bob, dave, carol],
                 invites := [sample_invite\<lparr> Used := True \<rparr>] \<rparr>"
    unfolding Register_db_after_Create [OF chk cr]
    by (simp add: Update_must_change_password_def Save_Invite_def no_faults_def
        sample_db_def sample_invite_def)
  have reply: "snd (fst ?run) = Redirect ''/dashboard'' 303"
    unfolding Register_at_Create [OF chk] cr
    by (simp add: GenerateToken_encodes Let_def StatusSeeOther_def)
  show ?thesis
    using db reply by (simp add: carol_def)
qed

section \<open>Access gate chain\<close>

lemma role_listed_iff: "role_listed roles user \<longleftrightarrow> Role user \<in> set roles"
  by (induction roles) auto

lemma find_SomeD: "find P xs = Some x \<Longrightarrow> x \<in> set xs \<and> P x"
  by (induction xs) (auto split: if_splits)

lemma lookup_routeD:
  "lookup_route m p = Some (m', p', ms, t) \<Longrightarrow> (m', p', ms, t) \<in> set routes \<and> m' = m \<and> p' = p"
  by (auto simp add: lookup_route_def dest: find_SomeD)

lemma routes_well_gated: "list_all well_gated routes"
  by (simp add: routes_def)

lemma well_gated_role:
  "well_gated (m, p, ms, t) \<Longrightarrow> UseRequireRole roles \<in> set ms \<Longrightarrow>
     ms = [UseAuthMiddleware, UseRequirePasswordChange, UseRequireRole roles]
     \<and> p \<noteq> ''/change-password''"
  by (induction "(m, p, ms, t)" arbitrary: m p ms t rule: well_gated.induct) auto

lemma well_gated_auth:
  "well_gated (m, p, ms, t) \<Longrightarrow> UseAuthMiddleware \<in> set ms \<Longrightarrow>
     (if p = ''/change-password'' \<or> p = ''/logout'' then ms = [UseAuthMiddleware]
      else (\<exists>rest. ms = UseAuthMiddleware # UseRequirePasswordChange # rest))"
  by (induction "(m, p, ms, t)" arbitrary: m p ms t rule: well_gated.induct) auto

lemma route_well_gated:
  "lookup_route m p = Some (m', p', ms, t) \<Longrightarrow> well_gated (m', p, ms, t)"
  using routes_well_gated lookup_routeD [of m p m' p' ms t]
  by (auto simp add: list_all_iff)

lemma AuthMiddleware_no_token:
  "no_token r \<Longrightarrow>
     AuthMiddleware cd jwtSecret flt now next r db = (([], Redirect ''/login'' StatusSeeOther), db)"
  by (simp add: no_token_def AuthMiddleware_def tokenString_def)

lemma AuthMiddleware_authenticated:
  "authenticated cd jwtSecret flt now r db user \<Longrightarrow>
     AuthMiddleware cd jwtSecret flt now next r db = next (r\<lparr> ContextUser := Some user \<rparr>) db"
  by (auto simp add: authenticated_def AuthMiddleware_def)

lemma RequirePasswordChange_flagged:
  "GetUserFromContext r = Some user \<Longrightarrow> MustChangePassword user \<Longrightarrow>
     RequirePasswordChange next r db =
       (if URLPath r = ''/change-password'' then next r db
        else (([], Redirect ''/change-password'' StatusSeeOther), db))"
  by (simp add: RequirePasswordChange_def)

lemma RequirePasswordChange_unflagged:
  "GetUserFromContext r = Some user \<Longrightarrow> \<not> MustChangePassword user \<Longrightarrow>
     RequirePasswordChange next r db = next r db"
  by (simp add: RequirePasswordChange_def)

lemma RequireRole_denied:
  "GetUserFromContext r = Some user \<Longrightarrow> Role user \<notin> set roles \<Longrightarrow>
     RequireRole roles next r db = (([], Error ''Forbidden'' StatusForbidden), db)"
  by (simp add: RequireRole_def role_listed_iff)

lemma authenticated_alice:
  "authenticated sample_codec ''k'' no_faults 5000000000
     (sample_request m p [(''token'', ''h.alice.s'')]) sample_db alice"
  by (simp add: authenticated_def tokenString_sample ValidateToken_alice no_faults_def
      alice_claims_def First_User_sample)

lemma authenticated_bob:
  "authenticated sample_codec ''k'' no_faults 5000000000
     (sample_request m p [(''token'', ''h.bob.s'')]) sample_db bob"
  by (simp add: authenticated_def tokenString_sample ValidateToken_bob no_faults_def
      bob_claims_def First_User_sample)

text \<open>
  C8. For every request whose first cookie named token has a non-empty value, the
  token taken for verification is that value, whatever the header fields are: the
  authorization field is read only when there is no such cookie or its value is
  empty. \<open>AuthMiddleware\<close> verifies that value and nothing else.
\<close>

theorem tokenString_cookie:
  assumes "Cookie r ''token'' = Some v" and "v \<noteq> []"
  shows "tokenString r = v
         \<and> tokenString (r\<lparr> Header := h \<rparr>) = v
         \<and> AuthMiddleware cd jwtSecret flt now next r db =
             (case ValidateToken cd jwtSecret now v of
                Inl err \<Rightarrow> (([clearTokenCookie], Redirect ''/login'' StatusSeeOther), db)
              | Inr claims \<Rightarrow>
                  (case First_User (auth_user_query_fails flt) db (UserID claims) of
                     None \<Rightarrow> (([], Redirect ''/login'' StatusSeeOther), db)
                   | Some user \<Rightarrow> next (r\<lparr> ContextUser := Some user \<rparr>) db))"
  using assms by (simp add: tokenString_def AuthMiddleware_def Cookie_def)

theorem tokenString_cookie_witness:
  "tokenString (bearer_request ''h.alice.s'') = ''h.alice.s''
   \<and> tokenString ((bearer_request ''h.alice.s'')\<lparr> Header := [] \<rparr>) = ''h.alice.s''"
proof -
  have "Cookie (bearer_request ''h.alice.s'') ''token'' = Some ''h.alice.s''"
    by (simp add: bearer_request_def Cookie_def)
  from tokenString_cookie [OF this, of "[]" sample_codec "''k''" no_faults 5000000000
      "sample_app ''overtimeHandler.Dashboard''" sample_db]
  show ?thesis by simp
qed

theorem tokenString_cookie_counterexample:
  "Cookie (bearer_request []) ''token'' = Some []
   \<and> Header_Get (bearer_request []) ''Authorization'' = ''Bearer h.bob.s''
   \<and> tokenString (bearer_request []) = ''h.bob.s''"
  by (simp add: bearer_request_def Cookie_def Header_Get_def tokenString_def)

text \<open>
  C4. For every request to a route behind a role gate: with no token at all the
  answer is a redirect to the login page; when the request is authenticated and the
  role of the resolved identity is not in the route's list, the answer is 403 Forbidden
  if the identity need not change its password, and the redirect of the password
  gate, which runs first, if it must.
\<close>

theorem role_gated_route:
  assumes route: "lookup_route (Method r) (URLPath r) = Some (m, p, ms, t)"
    and gated: "UseRequireRole roles \<in> set ms"
  shows "(no_token r \<longrightarrow>
            ServeHTTP cd jwtSecret flt now app r db =
              (([], Redirect ''/login'' StatusSeeOther), db))
         \<and> (authenticated cd jwtSecret flt now r db user \<and> Role user \<notin> set roles \<longrightarrow>
              ServeHTTP cd jwtSecret flt now app r db =
                (if MustChangePassword user
                 then (([], Redirect ''/change-password'' StatusSeeOther), db)
                 else (([], Error ''Forbidden'' StatusForbidden), db)))"
proof -
  from well_gated_role [OF route_well_gated [OF route] gated]
  have ms: "ms = [UseAuthMiddleware, UseRequirePasswordChange, UseRequireRole roles]"
    and path: "URLPath r \<noteq> ''/change-password''"
    by simp_all
  let ?h = "wrap cd jwtSecret flt now ms (resolve app t)"
  have serve: "ServeHTTP cd jwtSecret flt now app r db = Recoverer ?h r db"
    using route by (simp add: ServeHTTP_def)
  have a: "no_token r \<Longrightarrow> ?h r db = (([], Redirect ''/login'' StatusSeeOther), db)"
    by (simp add: ms AuthMiddleware_no_token)
  have b: "?h r db = (if MustChangePassword user
                 then (([], Redirect ''/change-password'' StatusSeeOther), db)
                 else (([], Error ''Forbidden'' StatusForbidden), db))"
    if auth: "authenticated cd jwtSecret flt now r db user" and role: "Role user \<notin> set roles"
  proof -
    let ?r = "r\<lparr> ContextUser := Some user \<rparr>"
    have ctx: "GetUserFromContext ?r = Some user" by (simp add: GetUserFromContext_def)
    have path': "URLPath ?r \<noteq> ''/change-password''" using path by simp
    show ?thesis
    proof (cases "MustChangePassword user")
      case True
      then show ?thesis
        using path'
        by (simp add: ms AuthMiddleware_authenticated [OF auth]
            RequirePasswordChange_flagged [OF ctx True])
    next
      case False
      then show ?thesis
        by (simp add: ms AuthMiddleware_authenticated [OF auth]
            RequirePasswordChange_unflagged [OF ctx False] RequireRole_denied [OF ctx role])
    qed
  qed
  show ?thesis
    using a b by (auto simp add: serve Recoverer_def)
qed

theorem role_gated_route_witness:
  "ServeHTTP sample_codec ''k'' no_faults 5000000000 sample_app
     (sample_request ''GET'' ''/invites'' []) sample_db
     = (([], Redirect ''/login'' 303), sample_db)
   \<and> ServeHTTP sample_codec ''k'' no_faults 5000000000 sample_app
     (sample_request ''GET'' ''/invites'' [(''token'', ''h.bob.s'')]) sample_db
     = (([], Error ''Forbidden'' 403), sample_db)"
proof -
  have r: "lookup_route (Method (sample_request ''GET'' ''/invites'' cs))
      (URLPath (sample_request ''GET'' ''/invites'' cs)) =
     Some (''GET'', ''/invites'',
           [UseAuthMiddleware, UseRequirePasswordChange, UseRequireRole [RoleAdmin]],
           Named ''authHandler.InvitesPage'')" for cs
    by (simp add: sample_request_def lookup_route_sample)
  have g: "UseRequireRole [RoleAdmin]
      \<in> set [UseAuthMiddleware, UseRequirePasswordChange, UseRequireRole [RoleAdmin]]"
    by simp
  have anon: "no_token (sample_request ''GET'' ''/invites'' [])"
    by (simp add: no_token_def sample_request_def Cookie_def Header_Get_def)
  have role: "Role bob \<notin> set [RoleAdmin]" "\<not> MustChangePassword bob"
    by (simp_all add: bob_def RoleAdmin_def RoleEmployee_def)
  show ?thesis
    using role_gated_route [OF r g, of "[]" sample_codec "''k''" no_faults 5000000000
        sample_app sample_db bob]
      role_gated_route [OF r g, of "[(''token'', ''h.bob.s'')]" sample_codec "''k''" no_faults
        5000000000 sample_app sample_db bob]
      anon authenticated_bob role
    by (simp add: StatusSeeOther_def StatusForbidden_def)
qed

theorem role_gated_route_counterexample:
  "lookup_route ''GET'' ''/invites'' =
     Some (''GET'', ''/invites'',
           [UseAuthMiddleware, UseRequirePasswordChange, UseRequireRole [RoleAdmin]],
           Named ''authHandler.InvitesPage'')
   \<and> authenticated sample_codec ''k'' no_faults 5000000000
        (sample_request ''GET'' ''/invites'' [(''token'', ''h.alice.s'')]) sample_db alice
   \<and> Role alice \<notin> set [RoleAdmin]
   \<and> ServeHTTP sample_codec ''k'' no_faults 5000000000 sample_app
        (sample_request ''GET'' ''/invites'' [(''token'', ''h.alice.s'')]) sample_db
      = (([], Redirect ''/change-password'' 303), sample_db)"
proof -
  let ?r = "sample_request ''GET'' ''/invites'' [(''token'', ''h.alice.s'')]"
  have ctx: "GetUserFromContext (?r\<lparr> ContextUser := Some alice \<rparr>) = Some alice"
    by (simp add: GetUserFromContext_def)
  have flag: "MustChangePassword alice" by (simp add: alice_def)
  have "ServeHTTP sample_codec ''k'' no_faults 5000000000 sample_app ?r sample_db
      = (([], Redirect ''/change-password'' 303), sample_db)"
    by (simp add: ServeHTTP_def sample_request_def [of "''GET''" "''/invites''"]
        lookup_route_sample Recoverer_def StatusSeeOther_def
        AuthMiddleware_authenticated [OF authenticated_alice, unfolded sample_request_def]
        RequirePasswordChange_def GetUserFromContext_def flag)
  then show ?thesis
    using authenticated_alice lookup_route_sample(1)
    by (simp add: alice_def RoleAdmin_def RoleEmployee_def)
qed

text \<open>
  C5. For every request to a route behind the token check that is authenticated as
  an identity with \<open>MustChangePassword\<close> true: on every path but the
  change-password page and the logout route the answer is a redirect to
  \<^verbatim>\<open>/change-password\<close>; on the change-password page the request goes on to the
  route's handler, with the identity in its context.
\<close>

theorem password_gate:
  assumes route: "lookup_route (Method r) (URLPath r) = Some (m, p, ms, t)"
    and protected: "UseAuthMiddleware \<in> set ms"
    and auth: "authenticated cd jwtSecret flt now r db user"
    and flagged: "MustChangePassword user"
  shows "(URLPath r \<noteq> ''/change-password'' \<and> URLPath r \<noteq> ''/logout'' \<longrightarrow>
            ServeHTTP cd jwtSecret flt now app r db =
              (([], Redirect ''/change-password'' StatusSeeOther), db))
         \<and> (URLPath r = ''/change-password'' \<longrightarrow>
              ServeHTTP cd jwtSecret flt now app r db =
                Recoverer (resolve app t) (r\<lparr> ContextUser := Some user \<rparr>) db)"
proof -
  let ?r = "r\<lparr> ContextUser := Some user \<rparr>"
  have ctx: "GetUserFromContext ?r = Some user" by (simp add: GetUserFromContext_def)
  note wg = well_gated_auth [OF route_well_gated [OF route] protected]
  have serve: "ServeHTTP cd jwtSecret flt now app r db =
      Recoverer (wrap cd jwtSecret flt now ms (resolve app t)) r db"
    using route by (simp add: ServeHTTP_def)
  have a: "ServeHTTP cd jwtSecret flt now app r db =
              (([], Redirect ''/change-password'' StatusSeeOther), db)"
    if path: "URLPath r \<noteq> ''/change-password''" "URLPath r \<noteq> ''/logout''"
  proof -
    from wg path obtain rest where ms: "ms = UseAuthMiddleware # UseRequirePasswordChange # rest"
      by auto
    have "wrap cd jwtSecret flt now ms (resolve app t) r db =
        (([], Redirect ''/change-password'' StatusSeeOther), db)"
      using path
      by (simp add: ms AuthMiddleware_authenticated [OF auth]
          RequirePasswordChange_flagged [OF ctx flagged])
    then show ?thesis by (simp add: serve Recoverer_def)
  qed
  have b: "ServeHTTP cd jwtSecret flt now app r db = Recoverer (resolve app t) ?r db"
    if path: "URLPath r = ''/change-password''"
  proof -
    from wg path have ms: "ms = [UseAuthMiddleware]" by simp
    show ?thesis
      by (simp add: serve ms Recoverer_def AuthMiddleware_authenticated [OF auth])
  qed
  show ?thesis using a b by blast
qed

theorem password_gate_witness:
  "ServeHTTP sample_codec ''k'' no_faults 5000000000 sample_app
     (sample_request ''GET'' ''/dashboard'' [(''token'', ''h.alice.s'')]) sample_db
     = (([], Redirect ''/change-password'' 303), sample_db)"
proof -
  let ?r = "sample_request ''GET'' ''/dashboard'' [(''token'', ''h.alice.s'')]"
  have r: "lookup_route (Method ?r) (URLPath ?r) =
     Some (''GET'', ''/dashboard'', [UseAuthMiddleware, UseRequirePasswordChange],
           Named ''overtimeHandler.Dashboard'')"
    by (simp add: sample_request_def lookup_route_sample)
  have flag: "MustChangePassword alice" by (simp add: alice_def)
  have path: "URLPath ?r \<noteq> ''/change-password'' \<and> URLPath ?r \<noteq> ''/logout''"
    by (simp add: sample_request_def)
  show ?thesis
    using password_gate [OF r _ authenticated_alice flag, of sample_app] path
    by (simp add: StatusSeeOther_def)
qed

theorem password_gate_counterexample:
  "lookup_route ''GET'' ''/logout'' =
     Some (''GET'', ''/logout'', [UseAuthMiddleware], Named ''authHandler.Logout'')
   \<and> authenticated sample_codec ''k'' no_faults 5000000000
        (sample_request ''GET'' ''/logout'' [(''token'', ''h.alice.s'')]) sample_db alice
   \<and> MustChangePassword alice
   \<and> URLPath (sample_request ''GET'' ''/logout'' [(''token'', ''h.alice.s'')])
        \<noteq> ''/change-password''
   \<and> ServeHTTP sample_codec ''k'' no_faults 5000000000 sample_app
        (sample_request ''GET'' ''/logout'' [(''token'', ''h.alice.s'')]) sample_db
      = (([clearTokenCookie], Redirect ''/login'' 303), sample_db)"
proof -
  let ?r = "sample_request ''GET'' ''/logout'' [(''token'', ''h.alice.s'')]"
  have "ServeHTTP sample_codec ''k'' no_faults 5000000000 sample_app ?r sample_db
      = (([clearTokenCookie], Redirect ''/login'' 303), sample_db)"
    by (simp add: ServeHTTP_def sample_request_def [of "''GET''" "''/logout''"]
        lookup_route_sample Recoverer_def StatusSeeOther_def resolve_def sample_app_def
        Logout_def
        AuthMiddleware_authenticated [OF authenticated_alice, unfolded sample_request_def])
  then show ?thesis
    using authenticated_alice lookup_route_sample(2)
    by (simp add: alice_def sample_request_def)
qed

section \<open>User administration\<close>

text \<open>
  C9. For every invocation of \<open>DeleteUser\<close> in which the submitted id parses to the
  acting user's own id, the tables are left as they were, so no user row and no
  overtime entry is deleted; and when the acting user is an admin the answer is an
  error redirect to the users page.
\<close>

theorem DeleteUser_own_account:
  assumes "GetUserFromContext r = Some user"
    and "ParseUint (FormValue r ''id'') = Some (ID user)"
  shows "snd (DeleteUser flt now1 now2 r db) = db
         \<and> (IsAdmin user \<longrightarrow>
              fst (DeleteUser flt now1 now2 r db) =
                ([], Redirect (if FormError r then ''/users?error=Invalid+form+data''
                               else ''/users?error=Cannot+delete+your+own+account'')
                       StatusSeeOther))"
  using assms by (simp add: DeleteUser_def)

theorem DeleteUser_own_account_witness:
  "DeleteUser no_faults 5000000000 5000000001 (delete_request ''1'') sample_db
     = (([], Redirect ''/users?error=Cannot+delete+your+own+account'' 303), sample_db)"
proof -
  have ctx: "GetUserFromContext (delete_request ''1'') = Some root"
    by (simp add: GetUserFromContext_def delete_request_def)
  have own: "ParseUint (FormValue (delete_request ''1'') ''id'') = Some (ID root)"
    by (simp add: delete_request_def FormValue_def ParseUint_def root_def)
  have adm: "IsAdmin root" "\<not> FormError (delete_request ''1'')"
    by (simp_all add: IsAdmin_def root_def delete_request_def)
  from DeleteUser_own_account [OF ctx own, of no_faults 5000000000 5000000001 sample_db] adm
  show ?thesis
    by (cases "DeleteUser no_faults 5000000000 5000000001 (delete_request ''1'') sample_db")
       (simp add: StatusSeeOther_def)
qed

end
